theory Spec2Isabelle
  imports Complex_Main
begin

section \<open>Python values\<close>

text \<open>
  The result normalizer of \<^verbatim>\<open>src/idp_app/app_main.py\<close> works on decoded JSON documents
  and on strings. A float is represented by the number it denotes, or by one of the
  three values that denote none; signed zeros are not told apart (Python compares them
  equal). Object identity is not represented.
\<close>

datatype pyfloat = Fin rat | PInf | NInf | NaN

datatype json =
    JNull
  | JBool bool
  | JInt int
  | JFloat pyfloat
  | JStr string
  | JList "json list"
  | JDict "(string \<times> json) list"

text \<open>
  A mapping is the list of its entries in insertion order (the keys of a Python dict
  are pairwise distinct); \<open>get\<close> reads the first entry of a key.
\<close>

datatype pyerr =
  TypeError | ValueError | AttributeError | OverflowError | KeyError | ZeroDivisionError

text \<open>
  The built-ins whose result depends on the binary64 format or on Python's numeric
  grammar are parameters of the model: \<open>float(s)\<close> and \<open>int(s)\<close> on a string
  (\<open>None\<close> when Python raises ValueError), and the rounding of an exact result to
  the nearest float (an infinity at overflow).
\<close>

record builtins =
  py_float_str :: "string \<Rightarrow> pyfloat option"
  py_int_str :: "string \<Rightarrow> int option"
  py_round :: "rat \<Rightarrow> pyfloat"

text \<open>Sequencing: an exception ends the computation.\<close>

definition err_bind :: "pyerr + 'a \<Rightarrow> ('a \<Rightarrow> pyerr + 'b) \<Rightarrow> pyerr + 'b" where
  "err_bind m f = (case m of Inl e \<Rightarrow> Inl e | Inr x \<Rightarrow> f x)"

subsection \<open>Truth values, lookups\<close>

fun truthy :: "json \<Rightarrow> bool" where
  "truthy JNull = False"
| "truthy (JBool b) = b"
| "truthy (JInt i) = (i \<noteq> 0)"
| "truthy (JFloat f) = (f \<noteq> Fin 0)"
| "truthy (JStr s) = (s \<noteq> [])"
| "truthy (JList xs) = (xs \<noteq> [])"
| "truthy (JDict kvs) = (kvs \<noteq> [])"

text \<open>\<open>a or b\<close>: the first operand when it is true, else the second.\<close>

definition py_or :: "json \<Rightarrow> json \<Rightarrow> json" where
  "py_or a b = (if truthy a then a else b)"

text \<open>\<open>d.get(k)\<close> and \<open>k in d\<close> on the entries of a mapping.\<close>

definition dict_get :: "(string \<times> json) list \<Rightarrow> string \<Rightarrow> json" where
  "dict_get kvs k = (case map_of kvs k of None \<Rightarrow> JNull | Some v \<Rightarrow> v)"

definition dict_has :: "(string \<times> json) list \<Rightarrow> string \<Rightarrow> bool" where
  "dict_has kvs k = (map_of kvs k \<noteq> None)"

subsection \<open>Numbers\<close>

definition rat_trunc :: "rat \<Rightarrow> int" where
  "rat_trunc r = (if 0 \<le> r then \<lfloor>r\<rfloor> else \<lceil>r\<rceil>)"

text \<open>\<open>int(f)\<close> on a float.\<close>

fun float_to_int :: "pyfloat \<Rightarrow> pyerr + int" where
  "float_to_int (Fin r) = Inr (rat_trunc r)"
| "float_to_int PInf = Inl OverflowError"
| "float_to_int NInf = Inl OverflowError"
| "float_to_int NaN = Inl ValueError"

text \<open>\<open>float(i)\<close> on an integer.\<close>

definition float_of_int :: "builtins \<Rightarrow> int \<Rightarrow> pyerr + pyfloat" where
  "float_of_int L i =
     (case py_round L (of_int i) of Fin r \<Rightarrow> Inr (Fin r) | _ \<Rightarrow> Inl OverflowError)"

text \<open>\<open>int(v)\<close> and \<open>float(v)\<close> on a decoded value.\<close>

fun py_int :: "builtins \<Rightarrow> json \<Rightarrow> pyerr + int" where
  "py_int L JNull = Inl TypeError"
| "py_int L (JBool b) = Inr (if b then 1 else 0)"
| "py_int L (JInt i) = Inr i"
| "py_int L (JFloat f) = float_to_int f"
| "py_int L (JStr s) = (case py_int_str L s of None \<Rightarrow> Inl ValueError | Some i \<Rightarrow> Inr i)"
| "py_int L (JList xs) = Inl TypeError"
| "py_int L (JDict kvs) = Inl TypeError"

fun py_float :: "builtins \<Rightarrow> json \<Rightarrow> pyerr + pyfloat" where
  "py_float L JNull = Inl TypeError"
| "py_float L (JBool b) = Inr (Fin (if b then 1 else 0))"
| "py_float L (JInt i) = float_of_int L i"
| "py_float L (JFloat f) = Inr f"
| "py_float L (JStr s) = (case py_float_str L s of None \<Rightarrow> Inl ValueError | Some f \<Rightarrow> Inr f)"
| "py_float L (JList xs) = Inl TypeError"
| "py_float L (JDict kvs) = Inl TypeError"

text \<open>The number a \<open>bool\<close>, \<open>int\<close> or \<open>float\<close> denotes.\<close>

fun num_val :: "json \<Rightarrow> pyfloat option" where
  "num_val (JBool b) = Some (Fin (if b then 1 else 0))"
| "num_val (JInt i) = Some (Fin (of_int i))"
| "num_val (JFloat f) = Some f"
| "num_val _ = None"

fun float_lt :: "pyfloat \<Rightarrow> pyfloat \<Rightarrow> bool" where
  "float_lt NaN _ = False"
| "float_lt _ NaN = False"
| "float_lt (Fin a) (Fin b) = (a < b)"
| "float_lt (Fin a) PInf = True"
| "float_lt (Fin a) NInf = False"
| "float_lt PInf _ = False"
| "float_lt NInf NInf = False"
| "float_lt NInf _ = True"

definition float_eq :: "pyfloat \<Rightarrow> pyfloat \<Rightarrow> bool" where
  "float_eq a b = (a \<noteq> NaN \<and> a = b)"

subsection \<open>Comparisons\<close>

text \<open>
  \<open>a == b\<close> on decoded values: numbers of the three numeric types by the number
  they denote, strings and sequences element by element, mappings entry by entry.
\<close>

fun py_eq :: "json \<Rightarrow> json \<Rightarrow> bool"
  and py_eq_list :: "json list \<Rightarrow> json list \<Rightarrow> bool"
  and py_eq_entries :: "(string \<times> json) list \<Rightarrow> (string \<times> json) list \<Rightarrow> bool" where
  "py_eq JNull b = (b = JNull)"
| "py_eq (JStr s) b = (b = JStr s)"
| "py_eq (JList xs) b = (case b of JList ys \<Rightarrow> py_eq_list xs ys | _ \<Rightarrow> False)"
| "py_eq (JDict a) b =
     (case b of JDict c \<Rightarrow> length a = length c \<and> py_eq_entries a c | _ \<Rightarrow> False)"
| "py_eq (JBool x) b =
     (case num_val b of Some y \<Rightarrow> float_eq (Fin (if x then 1 else 0)) y | None \<Rightarrow> False)"
| "py_eq (JInt i) b =
     (case num_val b of Some y \<Rightarrow> float_eq (Fin (of_int i)) y | None \<Rightarrow> False)"
| "py_eq (JFloat f) b = (case num_val b of Some y \<Rightarrow> float_eq f y | None \<Rightarrow> False)"
| "py_eq_list [] ys = (ys = [])"
| "py_eq_list (x # xs) ys =
     (case ys of [] \<Rightarrow> False | y # ys' \<Rightarrow> py_eq x y \<and> py_eq_list xs ys')"
| "py_eq_entries [] c = True"
| "py_eq_entries ((k, v) # a) c =
     ((case map_of c k of None \<Rightarrow> False | Some w \<Rightarrow> py_eq v w) \<and> py_eq_entries a c)"

text \<open>Strings are ordered by code point, position by position.\<close>

fun str_lt :: "string \<Rightarrow> string \<Rightarrow> bool" where
  "str_lt [] t = (t \<noteq> [])"
| "str_lt (c # s) [] = False"
| "str_lt (c # s) (d # t) = (if c = d then str_lt s t else (of_char c :: nat) < of_char d)"

text \<open>
  \<open>a < b\<close>: defined between numbers, between strings and between sequences (decided
  at the first position where the elements differ); TypeError otherwise.
\<close>

fun py_lt :: "json \<Rightarrow> json \<Rightarrow> pyerr + bool"
  and py_lt_list :: "json list \<Rightarrow> json list \<Rightarrow> pyerr + bool" where
  "py_lt JNull b = Inl TypeError"
| "py_lt (JDict a) b = Inl TypeError"
| "py_lt (JStr s) b = (case b of JStr t \<Rightarrow> Inr (str_lt s t) | _ \<Rightarrow> Inl TypeError)"
| "py_lt (JList xs) b = (case b of JList ys \<Rightarrow> py_lt_list xs ys | _ \<Rightarrow> Inl TypeError)"
| "py_lt (JBool x) b =
     (case num_val b of Some y \<Rightarrow> Inr (float_lt (Fin (if x then 1 else 0)) y)
      | None \<Rightarrow> Inl TypeError)"
| "py_lt (JInt i) b =
     (case num_val b of Some y \<Rightarrow> Inr (float_lt (Fin (of_int i)) y) | None \<Rightarrow> Inl TypeError)"
| "py_lt (JFloat f) b =
     (case num_val b of Some y \<Rightarrow> Inr (float_lt f y) | None \<Rightarrow> Inl TypeError)"
| "py_lt_list [] ys = Inr (ys \<noteq> [])"
| "py_lt_list (x # xs) ys =
     (case ys of [] \<Rightarrow> Inr False
      | y # ys' \<Rightarrow> if py_eq x y then py_lt_list xs ys' else py_lt x y)"

text \<open>\<open>a > b\<close> is \<open>b < a\<close> on these values.\<close>

definition py_gt :: "json \<Rightarrow> json \<Rightarrow> pyerr + bool" where
  "py_gt a b = py_lt b a"

text \<open>
  \<open>min(xs)\<close> and \<open>max(xs)\<close>: the first element is the candidate, a later element
  replaces it when it compares strictly below (above) it; ValueError on the empty list.
\<close>

fun py_min_from :: "json \<Rightarrow> json list \<Rightarrow> pyerr + json" where
  "py_min_from m [] = Inr m"
| "py_min_from m (x # xs) =
     (case py_lt x m of Inl e \<Rightarrow> Inl e | Inr b \<Rightarrow> py_min_from (if b then x else m) xs)"

fun py_max_from :: "json \<Rightarrow> json list \<Rightarrow> pyerr + json" where
  "py_max_from m [] = Inr m"
| "py_max_from m (x # xs) =
     (case py_gt x m of Inl e \<Rightarrow> Inl e | Inr b \<Rightarrow> py_max_from (if b then x else m) xs)"

definition py_min :: "json list \<Rightarrow> pyerr + json" where
  "py_min xs = (case xs of [] \<Rightarrow> Inl ValueError | x # rest \<Rightarrow> py_min_from x rest)"

definition py_max :: "json list \<Rightarrow> pyerr + json" where
  "py_max xs = (case xs of [] \<Rightarrow> Inl ValueError | x # rest \<Rightarrow> py_max_from x rest)"

subsection \<open>Strings\<close>

text \<open>
  A string is the list of its code points, which the model takes below 256. The
  white space of \<open>str.strip()\<close> in that range: 9 to 13, 28 to 32, 133 and 160.
\<close>

definition py_isspace :: "char \<Rightarrow> bool" where
  "py_isspace c =
     (let n = (of_char c :: nat) in (9 \<le> n \<and> n \<le> 13) \<or> (28 \<le> n \<and> n \<le> 32) \<or> n = 133 \<or> n = 160)"

definition py_strip :: "string \<Rightarrow> string" where
  "py_strip s = rev (dropWhile py_isspace (rev (dropWhile py_isspace s)))"

text \<open>\<open>s.split(sep)\<close> for a separator of one character.\<close>

fun py_split :: "char \<Rightarrow> string \<Rightarrow> string list" where
  "py_split sep [] = [[]]"
| "py_split sep (c # cs) =
     (if c = sep then [] # py_split sep cs
      else (case py_split sep cs of [] \<Rightarrow> [[c]] | t # ts \<Rightarrow> (c # t) # ts))"

text \<open>\<open>s.find(c)\<close>: the index of the first occurrence, or -1.\<close>

definition py_find :: "char \<Rightarrow> string \<Rightarrow> int" where
  "py_find c s = (if c \<in> set s then int (length (takeWhile (\<lambda>x. x \<noteq> c) s)) else - 1)"

text \<open>\<open>s[a:-1]\<close> for a start index \<open>a \<ge> 0\<close>.\<close>

definition slice_to_last :: "int \<Rightarrow> string \<Rightarrow> string" where
  "slice_to_last a s = take (length s - 1 - nat a) (drop (nat a) s)"

definition py_endswith :: "string \<Rightarrow> char \<Rightarrow> bool" where
  "py_endswith s c = (s \<noteq> [] \<and> last s = c)"

text \<open>\<open>xs[0::2]\<close>; \<open>xs[1::2]\<close> is the same slice of \<open>drop 1 xs\<close>.\<close>

fun every_other :: "'a list \<Rightarrow> 'a list" where
  "every_other [] = []"
| "every_other [x] = [x]"
| "every_other (x # y # zs) = x # every_other zs"

section \<open>Regions\<close>

text \<open>
  A region is the dict the source builds: \<open>kind\<close> is present only in regions parsed
  from a source string, \<open>polygon\<close> may be \<open>None\<close>.
\<close>

record region =
  kind :: "char option"
  pageNumber :: int
  polygon :: "json list option"
  bbox :: "json \<times> json \<times> json \<times> json"

definition coerce_polygon_to_bbox :: "json list \<Rightarrow> pyerr + (json \<times> json \<times> json \<times> json)" where
  "coerce_polygon_to_bbox poly =
     (let xs = every_other poly; ys = every_other (drop 1 poly) in
      err_bind (py_min xs) (\<lambda>x0.
      err_bind (py_min ys) (\<lambda>y0.
      err_bind (py_max xs) (\<lambda>x1.
      err_bind (py_max ys) (\<lambda>y1. Inr (x0, y0, x1, y1))))))"

subsection \<open>The source-string parser\<close>

text \<open>\<open>[float(x) for x in parts]\<close>: \<open>None\<close> as soon as one conversion raises.\<close>

fun floats_of :: "builtins \<Rightarrow> string list \<Rightarrow> pyfloat list option" where
  "floats_of L [] = Some []"
| "floats_of L (p # ps) =
     (case py_float_str L p of None \<Rightarrow> None
      | Some f \<Rightarrow> (case floats_of L ps of None \<Rightarrow> None | Some fs \<Rightarrow> Some (f # fs)))"

text \<open>
  The body \<open>source[source.find("(") + 1 : -1]\<close> and its comma-separated pieces,
  stripped, the empty ones dropped.
\<close>

definition source_body :: "string \<Rightarrow> string" where
  "source_body source = slice_to_last (py_find CHR ''('' source + 1) source"

definition source_parts :: "string \<Rightarrow> string list" where
  "source_parts source =
     filter (\<lambda>p. p \<noteq> []) (map py_strip (py_split CHR '','' (source_body source)))"

text \<open>
  \<open>parse_cu_source_string\<close>. The result is \<open>Inr None\<close> where the source returns
  \<open>None\<close>; every exception raised inside its \<open>try\<close> block is caught there.
\<close>

definition parse_cu_source_string :: "builtins \<Rightarrow> string \<Rightarrow> pyerr + region option" where
  "parse_cu_source_string L source0 =
     (if source0 = [] then Inr None
      else let source = py_strip source0 in
        if length source < 4 \<or> CHR ''('' \<notin> set source \<or> \<not> py_endswith source CHR '')''
        then Inr None
        else let k = source ! 0; parts = source_parts source in
          if length parts < 9 then Inr None
          else (case py_float_str L (parts ! 0) of None \<Rightarrow> Inr None | Some f \<Rightarrow>
                (case float_to_int f of Inl e \<Rightarrow> Inr None | Inr page_num \<Rightarrow>
                 (case floats_of L (drop 1 parts) of None \<Rightarrow> Inr None | Some coords \<Rightarrow>
                    if length coords < 8 then Inr None
                    else let coords = map JFloat (take 8 coords) in
                      (case coerce_polygon_to_bbox coords of Inl e \<Rightarrow> Inl e
                       | Inr b \<Rightarrow> Inr (Some \<lparr>kind = Some k, pageNumber = page_num,
                                              polygon = Some coords, bbox = b\<rparr>))))))"

subsection \<open>The region extractor\<close>

text \<open>\<open>isinstance(v, list) and len(v) >= 8\<close>, and the elements of a list.\<close>

fun long_list :: "json \<Rightarrow> bool" where
  "long_list (JList ps) = (8 \<le> length ps)"
| "long_list _ = False"

fun items_of :: "json \<Rightarrow> json list" where
  "items_of (JList ps) = ps"
| "items_of _ = []"

text \<open>
  \<open>isinstance(v, list) and len(v) == 4\<close> with the unpacking \<open>x0, y0, x1, y1 = v\<close>.
\<close>

fun four_of :: "json \<Rightarrow> (json \<times> json \<times> json \<times> json) option" where
  "four_of (JList [a, b, c, d]) = Some (a, b, c, d)"
| "four_of _ = None"

text \<open>
  The body of the loop over \<open>bounding_regions\<close>: \<open>br.get\<close> raises AttributeError on an
  element that is no mapping, and \<open>int(p)\<close> is evaluated without a test of \<open>p\<close>.
\<close>

definition bounding_region :: "builtins \<Rightarrow> json \<Rightarrow> json \<Rightarrow> pyerr + region list" where
  "bounding_region L page_num br =
     (case br of
        JDict e \<Rightarrow>
          (let p = py_or (py_or (dict_get e ''pageNumber'') (dict_get e ''page'')) page_num;
               poly = py_or (dict_get e ''polygon'') (dict_get e ''points'');
               bb = dict_get e ''boundingBox''
           in if truthy poly \<and> long_list poly then
                err_bind (coerce_polygon_to_bbox (items_of poly)) (\<lambda>b.
                err_bind (py_int L p) (\<lambda>n.
                  Inr [\<lparr>kind = None, pageNumber = n, polygon = Some (items_of poly), bbox = b\<rparr>]))
              else if truthy bb \<and> four_of bb \<noteq> None then
                err_bind (py_int L p) (\<lambda>n.
                  Inr [\<lparr>kind = None, pageNumber = n, polygon = None, bbox = the (four_of bb)\<rparr>])
              else Inr [])
      | _ \<Rightarrow> Inl AttributeError)"

fun bounding_regions_loop :: "builtins \<Rightarrow> json \<Rightarrow> json list \<Rightarrow> pyerr + region list" where
  "bounding_regions_loop L page_num [] = Inr []"
| "bounding_regions_loop L page_num (br # brs) =
     err_bind (bounding_region L page_num br) (\<lambda>r.
     err_bind (bounding_regions_loop L page_num brs) (\<lambda>rs. Inr (r @ rs)))"

definition normalize_regions_from_source ::
  "builtins \<Rightarrow> (string \<times> json) list \<Rightarrow> pyerr + region list" where
  "normalize_regions_from_source L src =
     (let page_num =
            py_or (py_or (dict_get src ''pageNumber'') (dict_get src ''page''))
              (dict_get src ''pageIndex'');
          bounding_regions =
            py_or (py_or (dict_get src ''boundingRegions'') (dict_get src ''regions'')) (JList [])
      in case bounding_regions of
           JList (br # brs) \<Rightarrow> bounding_regions_loop L page_num (br # brs)
         | _ \<Rightarrow>
           (let poly = py_or (dict_get src ''polygon'') (dict_get src ''points'');
                bb = dict_get src ''boundingBox''
            in if truthy poly \<and> long_list poly \<and> truthy page_num then
                 err_bind (coerce_polygon_to_bbox (items_of poly)) (\<lambda>b.
                 err_bind (py_int L page_num) (\<lambda>n.
                   Inr [\<lparr>kind = None, pageNumber = n, polygon = Some (items_of poly), bbox = b\<rparr>]))
               else if truthy bb \<and> four_of bb \<noteq> None \<and> truthy page_num then
                 err_bind (py_int L page_num) (\<lambda>n.
                   Inr [\<lparr>kind = None, pageNumber = n, polygon = None, bbox = the (four_of bb)\<rparr>])
               else Inr []))"

subsection \<open>The evidence gatherer\<close>

fun is_container :: "json \<Rightarrow> bool" where
  "is_container (JList xs) = True"
| "is_container (JDict e) = True"
| "is_container _ = False"

fun gather_sources_recursive :: "json \<Rightarrow> json list"
  and gather_values :: "(string \<times> json) list \<Rightarrow> json list"
  and gather_items :: "json list \<Rightarrow> json list" where
  "gather_sources_recursive (JDict e) =
     (if dict_has e ''source'' then [dict_get e ''source''] else []) @
     (if dict_has e ''sources'' then [dict_get e ''sources''] else []) @
     (if dict_has e ''evidence'' then [dict_get e ''evidence''] else []) @
     gather_values e"
| "gather_sources_recursive (JList xs) = gather_items xs"
| "gather_sources_recursive JNull = []"
| "gather_sources_recursive (JBool b) = []"
| "gather_sources_recursive (JInt i) = []"
| "gather_sources_recursive (JFloat f) = []"
| "gather_sources_recursive (JStr s) = []"
| "gather_values [] = []"
| "gather_values ((k, v) # e) =
     (if is_container v then gather_sources_recursive v else []) @ gather_values e"
| "gather_items [] = []"
| "gather_items (x # xs) = gather_sources_recursive x @ gather_items xs"

subsection \<open>The source-to-region resolver\<close>

text \<open>
  \<open>_consume_source_item\<close> appends to the list \<open>regions\<close> of the enclosing call; the
  model returns what one item appends.
\<close>

fun consume_source_item :: "builtins \<Rightarrow> json \<Rightarrow> pyerr + region list"
  and consume_source_items :: "builtins \<Rightarrow> json list \<Rightarrow> pyerr + region list" where
  "consume_source_item L (JStr s) =
     err_bind (parse_cu_source_string L s)
       (\<lambda>parsed. Inr (case parsed of None \<Rightarrow> [] | Some r \<Rightarrow> [r]))"
| "consume_source_item L (JDict e) = normalize_regions_from_source L e"
| "consume_source_item L (JList xs) = consume_source_items L xs"
| "consume_source_item L JNull = Inr []"
| "consume_source_item L (JBool b) = Inr []"
| "consume_source_item L (JInt i) = Inr []"
| "consume_source_item L (JFloat f) = Inr []"
| "consume_source_items L [] = Inr []"
| "consume_source_items L (x # xs) =
     err_bind (consume_source_item L x) (\<lambda>r.
     err_bind (consume_source_items L xs) (\<lambda>rs. Inr (r @ rs)))"

text \<open>
  The key \<open>(r.get("pageNumber"), r.get("bbox"))\<close>. Looking it up in the set \<open>seen\<close>
  hashes it (TypeError when a component of the box is a list or a mapping) and then
  finds a stored key whose components are, one by one, the same object or an equal one
  (\<open>x is y or x == y\<close>). The two differ for NaN only, which equals nothing, itself
  included. The document comes from the JSON decoder, which has one NaN object for
  every NaN it reads, and a NaN that \<open>float\<close> makes in the parser is a new object; a
  region of the extractor (without \<open>kind\<close>) holds objects of the document, a region of
  the parser (with \<open>kind\<close>) holds floats of its own. So two NaN components are the
  same object exactly when both regions are the extractor's, and the key carries that
  fact as its first component.
\<close>

type_synonym region_key = "bool \<times> int \<times> json \<times> json \<times> json \<times> json"

definition key_of :: "region \<Rightarrow> region_key" where
  "key_of r = (kind r = None, pageNumber r, bbox r)"

fun hashable :: "json \<Rightarrow> bool" where
  "hashable (JList xs) = False"
| "hashable (JDict e) = False"
| "hashable _ = True"

fun key_hashable :: "region_key \<Rightarrow> bool" where
  "key_hashable (dec, n, a, b, c, d) = (hashable a \<and> hashable b \<and> hashable c \<and> hashable d)"

text \<open>\<open>x is y or x == y\<close> on two components; \<open>shared\<close>: both are objects of the document.\<close>

definition same_item :: "bool \<Rightarrow> json \<Rightarrow> json \<Rightarrow> bool" where
  "same_item shared a b = (py_eq a b \<or> (shared \<and> a = JFloat NaN \<and> b = JFloat NaN))"

text \<open>\<open>==\<close> on two keys, as the tuples compare.\<close>

fun key_eq :: "region_key \<Rightarrow> region_key \<Rightarrow> bool" where
  "key_eq (dec, n, a, b, c, d) (dec', n', a', b', c', d') =
     (n = n' \<and> same_item (dec \<and> dec') a a' \<and> same_item (dec \<and> dec') b b' \<and>
      same_item (dec \<and> dec') c c' \<and> same_item (dec \<and> dec') d d')"

fun dedup_loop :: "region list \<Rightarrow> region_key list \<Rightarrow> region list \<Rightarrow> pyerr + region list" where
  "dedup_loop [] seen deduped = Inr deduped"
| "dedup_loop (r # rs) seen deduped =
     (let key = key_of r in
      if \<not> key_hashable key then Inl TypeError
      else if \<not> list_ex (key_eq key) seen then dedup_loop rs (seen @ [key]) (deduped @ [r])
      else dedup_loop rs seen deduped)"

definition sources_to_regions :: "builtins \<Rightarrow> json list \<Rightarrow> pyerr + region list" where
  "sources_to_regions L raw_sources =
     err_bind (consume_source_items L raw_sources) (\<lambda>regions. dedup_loop regions [] [])"

subsection \<open>The field value resolver\<close>

definition pick_value_from_field_obj :: "(string \<times> json) list \<Rightarrow> json" where
  "pick_value_from_field_obj field_obj =
     (if dict_has field_obj ''valueString'' then dict_get field_obj ''valueString''
      else if dict_has field_obj ''valueNumber'' then dict_get field_obj ''valueNumber''
      else if dict_has field_obj ''valueBoolean'' then dict_get field_obj ''valueBoolean''
      else if dict_has field_obj ''valueDate'' then dict_get field_obj ''valueDate''
      else if dict_has field_obj ''valueArray'' then dict_get field_obj ''valueArray''
      else if dict_has field_obj ''valueObject'' then dict_get field_obj ''valueObject''
      else if dict_has field_obj ''value'' then dict_get field_obj ''value''
      else JNull)"

subsection \<open>The fields-map locator\<close>

fun is_dict :: "json \<Rightarrow> bool" where
  "is_dict (JDict e) = True"
| "is_dict _ = False"

fun entries_of :: "json \<Rightarrow> (string \<times> json) list" where
  "entries_of (JDict e) = e"
| "entries_of _ = []"

definition has_marker :: "json \<Rightarrow> bool" where
  "has_marker sample =
     (is_dict sample \<and>
      (dict_has (entries_of sample) ''value'' \<or> dict_has (entries_of sample) ''valueString'' \<or>
       dict_has (entries_of sample) ''sources'' \<or> dict_has (entries_of sample) ''source''))"

fun find_fields_map :: "json \<Rightarrow> (string \<times> json) list option"
  and find_fields_map_values :: "(string \<times> json) list \<Rightarrow> (string \<times> json) list option"
  and find_fields_map_items :: "json list \<Rightarrow> (string \<times> json) list option" where
  "find_fields_map (JDict e) =
     (if e \<noteq> [] \<and> list_all (\<lambda>kv. is_dict (snd kv)) e \<and> has_marker (snd (hd e)) then Some e
      else find_fields_map_values e)"
| "find_fields_map (JList xs) = find_fields_map_items xs"
| "find_fields_map JNull = None"
| "find_fields_map (JBool b) = None"
| "find_fields_map (JInt i) = None"
| "find_fields_map (JFloat f) = None"
| "find_fields_map (JStr s) = None"
| "find_fields_map_values [] = None"
| "find_fields_map_values ((k, v) # e) =
     (case find_fields_map v of Some found \<Rightarrow> Some found | None \<Rightarrow> find_fields_map_values e)"
| "find_fields_map_items [] = None"
| "find_fields_map_items (x # xs) =
     (case find_fields_map x of Some found \<Rightarrow> Some found | None \<Rightarrow> find_fields_map_items xs)"

subsection \<open>Fields with their locations\<close>

text \<open>The dict \<open>{"name": ..., "value": ..., "regions": ...}\<close> of one extracted field.\<close>

record extracted_field =
  field_name :: string
  field_value :: json
  field_regions :: "region list"

definition is_document_like :: "json \<Rightarrow> bool" where
  "is_document_like c =
     (is_dict c \<and>
      (let k = dict_get (entries_of c) ''kind''
       in k = JStr ''document'' \<or> k = JStr ''text'' \<or> k = JNull))"

text \<open>
  The choice of \<open>content\<close>: the first document-like element of \<open>contents\<close>, else
  \<open>contents[0]\<close> when \<open>contents\<close> is true, else \<open>None\<close>. A string is iterated character
  by character; indexing a non-empty mapping with 0 raises KeyError; a number is not
  iterable.
\<close>

definition first_content :: "json \<Rightarrow> pyerr + json" where
  "first_content contents =
     (case contents of
        JList cs \<Rightarrow>
          (case find is_document_like cs of
             Some c \<Rightarrow> Inr c
           | None \<Rightarrow> (case cs of [] \<Rightarrow> Inr JNull | c # rest \<Rightarrow> Inr c))
      | JStr s \<Rightarrow> (case s of [] \<Rightarrow> Inr JNull | ch # rest \<Rightarrow> Inr (JStr [ch]))
      | JDict e \<Rightarrow> (if e = [] then Inr JNull else Inl KeyError)
      | _ \<Rightarrow> Inl TypeError)"

definition candidate_fields :: "json \<Rightarrow> (string \<times> json) list list" where
  "candidate_fields content =
     (case content of
        JDict ce \<Rightarrow>
          (let direct =
                 concat (map (\<lambda>k. if dict_has ce k \<and> is_dict (dict_get ce k)
                                   then [entries_of (dict_get ce k)] else [])
                           [''fields'', ''extractedFields'', ''output'', ''data'']);
               extraction =
                 py_or (py_or (dict_get ce ''extraction'') (dict_get ce ''result'')) (JDict [])
           in direct @
              (if is_dict extraction \<and> is_dict (dict_get (entries_of extraction) ''fields'')
               then [entries_of (dict_get (entries_of extraction) ''fields'')] else []))
      | _ \<Rightarrow> [])"

fun extract_loop :: "builtins \<Rightarrow> (string \<times> json) list \<Rightarrow> pyerr + extracted_field list" where
  "extract_loop L [] = Inr []"
| "extract_loop L ((fname, field_obj) # rest) =
     (case field_obj of
        JDict fo \<Rightarrow>
          (let v = pick_value_from_field_obj fo;
               sources =
                 py_or (py_or (py_or (dict_get fo ''sources'') (dict_get fo ''source''))
                          (dict_get fo ''evidence'')) (JList []);
               sources = (case sources of JList xs \<Rightarrow> xs | other \<Rightarrow> [other])
           in err_bind (sources_to_regions L sources) (\<lambda>regions.
              err_bind (if regions = []
                        then sources_to_regions L (gather_sources_recursive (JDict fo))
                        else Inr regions) (\<lambda>regions.
              err_bind (extract_loop L rest) (\<lambda>fs.
                Inr (\<lparr>field_name = fname, field_value = v, field_regions = regions\<rparr> # fs)))))
      | _ \<Rightarrow> extract_loop L rest)"

definition extract_fields_with_locations :: "builtins \<Rightarrow> json \<Rightarrow> pyerr + extracted_field list" where
  "extract_fields_with_locations L analysis_result =
     (case analysis_result of
        JDict ar \<Rightarrow>
          (case py_or (dict_get ar ''result'') (JDict []) of
             JDict res \<Rightarrow>
               (let contents = py_or (dict_get res ''contents'') (JList []);
                    contents = (if \<not> truthy contents
                                then py_or (dict_get ar ''contents'') (JList []) else contents)
                in err_bind (first_content contents) (\<lambda>content.
                     let fields_map =
                           (case candidate_fields content of
                              c # rest \<Rightarrow> Some c
                            | [] \<Rightarrow> find_fields_map analysis_result)
                     in case fields_map of
                          None \<Rightarrow> Inr []
                        | Some fm \<Rightarrow> if fm = [] then Inr [] else extract_loop L fm))
           | _ \<Rightarrow> Inl AttributeError)
      | _ \<Rightarrow> Inl AttributeError)"

subsection \<open>Projection onto the page image\<close>








subsection \<open>The classifier output interpreter\<close>

text \<open>
  The confidence of a mapping: the first true value among \<open>confidence\<close>, \<open>score\<close> and
  \<open>probability\<close>, converted by \<open>float\<close>; \<open>None\<close> when there is none or the conversion
  raises.
\<close>

definition confidence_of :: "builtins \<Rightarrow> (string \<times> json) list \<Rightarrow> pyfloat option" where
  "confidence_of L e =
     (let conf = py_or (py_or (dict_get e ''confidence'') (dict_get e ''score''))
                   (dict_get e ''probability'')
      in if conf = JNull then None
         else (case py_float L conf of Inl err \<Rightarrow> None | Inr f \<Rightarrow> Some f))"

fun find_first_category :: "builtins \<Rightarrow> json \<Rightarrow> (string \<times> pyfloat option) option"
  and find_first_category_values ::
    "builtins \<Rightarrow> (string \<times> json) list \<Rightarrow> (string \<times> pyfloat option) option"
  and find_first_category_items ::
    "builtins \<Rightarrow> json list \<Rightarrow> (string \<times> pyfloat option) option" where
  "find_first_category L (JDict e) =
     (case dict_get e ''category'' of
        JStr c \<Rightarrow> Some (c, confidence_of L e)
      | other \<Rightarrow>
          (case dict_get e ''label'' of
             JStr l \<Rightarrow> Some (l, confidence_of L e)
           | other' \<Rightarrow> find_first_category_values L e))"
| "find_first_category L (JList xs) = find_first_category_items L xs"
| "find_first_category L JNull = None"
| "find_first_category L (JBool b) = None"
| "find_first_category L (JInt i) = None"
| "find_first_category L (JFloat f) = None"
| "find_first_category L (JStr s) = None"
| "find_first_category_values L [] = None"
| "find_first_category_values L ((k, v) # e) =
     (case find_first_category L v of
        Some found \<Rightarrow> Some found
      | None \<Rightarrow> find_first_category_values L e)"
| "find_first_category_items L [] = None"
| "find_first_category_items L (x # xs) =
     (case find_first_category L x of
        Some found \<Rightarrow> Some found
      | None \<Rightarrow> find_first_category_items L xs)"

definition parse_classifier_output :: "builtins \<Rightarrow> json \<Rightarrow> string option \<times> pyfloat option" where
  "parse_classifier_output L result =
     (case find_first_category L result of
        Some (label, conf) \<Rightarrow> (Some label, conf)
      | None \<Rightarrow> (None, None))"

section \<open>Notions used to state the properties\<close>

text \<open>
  The source string \<open>K(t1,t2,...)\<close> written from a tag character and its
  comma-separated tokens.
\<close>

fun comma_join :: "string list \<Rightarrow> string" where
  "comma_join [] = []"
| "comma_join [t] = t"
| "comma_join (t # u # ts) = t @ CHR '','' # comma_join (u # ts)"

definition source_string :: "char \<Rightarrow> string list \<Rightarrow> string" where
  "source_string K toks = K # CHR ''('' # comma_join toks @ '')''"



text \<open>The seven value keys in the order of their priority.\<close>

definition value_keys :: "string list" where
  "value_keys =
     [''valueString'', ''valueNumber'', ''valueBoolean'', ''valueDate'', ''valueArray'',
      ''valueObject'', ''value'']"

text \<open>
  The nodes of a tree in natural traversal order: a node, then what lies under it,
  the values of a mapping in insertion order and the elements of a sequence in order.
\<close>

fun nodes :: "json \<Rightarrow> json list"
  and nodes_values :: "(string \<times> json) list \<Rightarrow> json list"
  and nodes_items :: "json list \<Rightarrow> json list" where
  "nodes (JDict e) = JDict e # nodes_values e"
| "nodes (JList xs) = JList xs # nodes_items xs"
| "nodes JNull = [JNull]"
| "nodes (JBool b) = [JBool b]"
| "nodes (JInt i) = [JInt i]"
| "nodes (JFloat f) = [JFloat f]"
| "nodes (JStr s) = [JStr s]"
| "nodes_values [] = []"
| "nodes_values ((k, v) # e) = nodes v @ nodes_values e"
| "nodes_items [] = []"
| "nodes_items (x # xs) = nodes x @ nodes_items xs"

text \<open>
  What one mapping contributes to the evidence: its values under \<open>source\<close>,
  \<open>sources\<close> and \<open>evidence\<close>, in this order of the keys.
\<close>

fun own_sources :: "json \<Rightarrow> json list" where
  "own_sources (JDict e) =
     (if dict_has e ''source'' then [dict_get e ''source''] else []) @
     (if dict_has e ''sources'' then [dict_get e ''sources''] else []) @
     (if dict_has e ''evidence'' then [dict_get e ''evidence''] else [])"
| "own_sources _ = []"

text \<open>
  The evidence in the order of the entries: every entry of a mapping in insertion
  order, its value collected when its key is one of the three, then the evidence
  under that value.
\<close>

fun sources_in_entry_order :: "json \<Rightarrow> json list"
  and sources_in_entry_order_values :: "(string \<times> json) list \<Rightarrow> json list"
  and sources_in_entry_order_items :: "json list \<Rightarrow> json list" where
  "sources_in_entry_order (JDict e) = sources_in_entry_order_values e"
| "sources_in_entry_order (JList xs) = sources_in_entry_order_items xs"
| "sources_in_entry_order JNull = []"
| "sources_in_entry_order (JBool b) = []"
| "sources_in_entry_order (JInt i) = []"
| "sources_in_entry_order (JFloat f) = []"
| "sources_in_entry_order (JStr s) = []"
| "sources_in_entry_order_values [] = []"
| "sources_in_entry_order_values ((k, v) # e) =
     (if k = ''source'' \<or> k = ''sources'' \<or> k = ''evidence'' then [v] else []) @
     sources_in_entry_order v @ sources_in_entry_order_values e"
| "sources_in_entry_order_items [] = []"
| "sources_in_entry_order_items (x # xs) =
     sources_in_entry_order x @ sources_in_entry_order_items xs"

text \<open>A mapping that carries a string under \<open>category\<close> or under \<open>label\<close>.\<close>

fun is_str :: "json \<Rightarrow> bool" where
  "is_str (JStr s) = True"
| "is_str _ = False"

fun labelled :: "json \<Rightarrow> bool" where
  "labelled (JDict e) =
     ((dict_has e ''category'' \<and> is_str (dict_get e ''category'')) \<or>
      (dict_has e ''label'' \<and> is_str (dict_get e ''label'')))"
| "labelled _ = False"

text \<open>
  Built-ins for closed examples: strings of ASCII digits are read as the number they
  write, every other string is refused, and nothing is rounded. The examples use them
  on short digit strings and on exactly representable numbers only, where Python
  computes the same.
\<close>

fun digits_value :: "nat \<Rightarrow> string \<Rightarrow> nat option" where
  "digits_value acc [] = Some acc"
| "digits_value acc (c # cs) =
     (let n = (of_char c :: nat) in
      if 48 \<le> n \<and> n \<le> 57 then digits_value (10 * acc + (n - 48)) cs else None)"

definition decimal_nat :: "string \<Rightarrow> nat option" where
  "decimal_nat s = (if s = [] then None else digits_value 0 s)"

definition plain_builtins :: builtins where
  "plain_builtins =
     \<lparr>py_float_str = (\<lambda>s. map_option (\<lambda>n. Fin (of_nat n)) (decimal_nat s)),
      py_int_str = (\<lambda>s. map_option int (decimal_nat s)),
      py_round = Fin\<rparr>"

text \<open>
  A token of a source string is a piece of its body between commas that is not blank
  (the parser drops the blank pieces); a page token is numeric when
  \<open>int(float(tok))\<close> has a value. A source string is malformed when it has no
  parenthesized body, or fewer than 9 tokens, or a first token that is no numeric page,
  or a later token that \<open>float\<close> refuses.
\<close>

definition numeric_page :: "builtins \<Rightarrow> string \<Rightarrow> bool" where
  "numeric_page L tok =
     (case py_float_str L tok of
        None \<Rightarrow> False
      | Some f \<Rightarrow> (case float_to_int f of Inl e \<Rightarrow> False | Inr n \<Rightarrow> True))"

definition malformed :: "builtins \<Rightarrow> string \<Rightarrow> bool" where
  "malformed L s =
     (let t = py_strip s in
      CHR ''('' \<notin> set t \<or> \<not> py_endswith t CHR '')'' \<or>
      length (source_parts t) < 9 \<or>
      (case source_parts t of
         [] \<Rightarrow> True
       | tok # rest \<Rightarrow> \<not> numeric_page L tok \<or> floats_of L rest = None))"

text \<open>
  What one node answers to the search for a label: a mapping with a string under
  \<open>category\<close>, else under \<open>label\<close>, answers that string with its confidence.
\<close>

fun own_label :: "builtins \<Rightarrow> json \<Rightarrow> (string \<times> pyfloat option) option" where
  "own_label L (JDict e) =
     (case dict_get e ''category'' of
        JStr c \<Rightarrow> Some (c, confidence_of L e)
      | other \<Rightarrow>
          (case dict_get e ''label'' of
             JStr l \<Rightarrow> Some (l, confidence_of L e)
           | other' \<Rightarrow> None))"
| "own_label L _ = None"

fun first_some :: "'a option list \<Rightarrow> 'a option" where
  "first_some [] = None"
| "first_some (Some x # xs) = Some x"
| "first_some (None # xs) = first_some xs"

text \<open>A decoded number that writes the integer \<open>v\<close>, as \<open>int\<close> or as \<open>float\<close>.\<close>

definition num_is :: "json \<Rightarrow> int \<Rightarrow> bool" where
  "num_is j v = (j = JInt v \<or> j = JFloat (Fin (of_int v)))"

section \<open>Properties of the source-string parser\<close>

lemma dropWhile_id: "s \<noteq> [] \<Longrightarrow> \<not> P (hd s) \<Longrightarrow> dropWhile P s = s"
  by (cases s) auto

lemma strip_id:
  "s \<noteq> [] \<Longrightarrow> \<not> py_isspace (hd s) \<Longrightarrow> \<not> py_isspace (last s) \<Longrightarrow> py_strip s = s"
  unfolding py_strip_def by (simp add: dropWhile_id hd_rev)

lemma py_split_single: "sep \<notin> set t \<Longrightarrow> py_split sep t = [t]"
  by (induction t) (auto split: list.splits)

lemma py_split_append:
  "sep \<notin> set t \<Longrightarrow> py_split sep (t @ sep # rest) = t # py_split sep rest"
  by (induction t) (auto split: list.splits)

lemma py_split_join:
  "toks \<noteq> [] \<Longrightarrow> \<forall>t\<in>set toks. CHR '','' \<notin> set t \<Longrightarrow>
   py_split CHR '','' (comma_join toks) = toks"
  by (induction toks rule: comma_join.induct) (auto simp: py_split_single py_split_append)

lemma length_comma_join: "length toks \<le> Suc (length (comma_join toks))"
  by (induction toks rule: comma_join.induct) auto

lemma rparen_not_space: "\<not> py_isspace CHR '')''"
  by (simp add: py_isspace_def)

lemma source_string_strip:
  "\<not> py_isspace K \<Longrightarrow> py_strip (source_string K toks) = source_string K toks"
  by (rule strip_id) (simp_all add: source_string_def rparen_not_space)

lemma source_string_body:
  "K \<noteq> CHR ''('' \<Longrightarrow> source_body (source_string K toks) = comma_join toks"
  by (simp add: source_body_def source_string_def py_find_def slice_to_last_def)

lemma source_string_parts:
  assumes "K \<noteq> CHR ''(''" "toks \<noteq> []"
    and "\<forall>t\<in>set toks. CHR '','' \<notin> set t \<and> py_strip t \<noteq> []"
  shows "source_parts (source_string K toks) = map py_strip toks"
proof -
  have "filter (\<lambda>p. p \<noteq> []) (map py_strip toks) = map py_strip toks"
    using assms(3) by (induction toks) auto
  then show ?thesis
    using assms by (simp add: source_parts_def source_string_body py_split_join)
qed

lemma source_string_shape:
  assumes "8 \<le> length cs"
  shows "\<not> (length (source_string K (p # cs)) < 4)"
    and "CHR ''('' \<in> set (source_string K (p # cs))"
    and "py_endswith (source_string K (p # cs)) CHR '')''"
    and "source_string K (p # cs) ! 0 = K"
    and "source_string K (p # cs) \<noteq> []"
proof -
  have "8 \<le> length (comma_join (p # cs))"
    using length_comma_join[of "p # cs"] assms by simp
  then have "comma_join (p # cs) \<noteq> []"
    by (cases "comma_join (p # cs)") simp_all
  then show "\<not> (length (source_string K (p # cs)) < 4)"
    by (simp add: source_string_def)
  show "CHR ''('' \<in> set (source_string K (p # cs))"
    by (simp add: source_string_def)
  show "py_endswith (source_string K (p # cs)) CHR '')''"
    by (simp add: source_string_def py_endswith_def)
  show "source_string K (p # cs) ! 0 = K"
    by (simp add: source_string_def)
  show "source_string K (p # cs) \<noteq> []"
    by (simp add: source_string_def)
qed

lemma floats_of_length: "floats_of L ps = Some fs \<Longrightarrow> length fs = length ps"
  by (induction ps arbitrary: fs) (auto split: option.splits)

lemma floats_of_map: "floats_of L ps = Some fs \<longleftrightarrow> map (py_float_str L) ps = map Some fs"
proof (induction ps arbitrary: fs)
  case Nil
  then show ?case by auto
next
  case (Cons p ps)
  show ?case
  proof (cases fs)
    case Nil
    then show ?thesis by (auto split: option.splits)
  next
    case (Cons g gs)
    then show ?thesis using Cons.IH[of gs] by (auto split: option.splits)
  qed
qed

lemma floats_of_None: "floats_of L ps = None \<longleftrightarrow> (\<exists>t\<in>set ps. py_float_str L t = None)"
  by (induction ps) (auto split: option.splits)

lemma floats_of_append:
  "floats_of L (ps @ qs) =
     (case floats_of L ps of None \<Rightarrow> None
      | Some fs \<Rightarrow> (case floats_of L qs of None \<Rightarrow> None | Some gs \<Rightarrow> Some (fs @ gs)))"
  by (induction ps) (auto split: option.splits)

text \<open>Minimum and maximum of floats never raise.\<close>

lemma py_min_from_floats: "\<exists>v. py_min_from (JFloat m) (map JFloat xs) = Inr (JFloat v)"
  by (induction xs arbitrary: m) auto

lemma py_max_from_floats: "\<exists>v. py_max_from (JFloat m) (map JFloat xs) = Inr (JFloat v)"
  by (induction xs arbitrary: m) (auto simp: py_gt_def)

lemma every_other_map: "every_other (map f xs) = map f (every_other xs)"
  by (induction xs rule: every_other.induct) auto

lemma py_min_floats: "xs \<noteq> [] \<Longrightarrow> \<exists>v. py_min (map JFloat xs) = Inr (JFloat v)"
  by (cases xs) (simp_all add: py_min_def py_min_from_floats)

lemma py_max_floats: "xs \<noteq> [] \<Longrightarrow> \<exists>v. py_max (map JFloat xs) = Inr (JFloat v)"
  by (cases xs) (simp_all add: py_max_def py_max_from_floats)

lemma every_other_nonempty: "xs \<noteq> [] \<Longrightarrow> every_other xs \<noteq> []"
  by (induction xs rule: every_other.induct) auto

lemma coerce_floats:
  assumes "2 \<le> length fs"
  shows "\<exists>b. coerce_polygon_to_bbox (map JFloat fs) = Inr b"
proof -
  have x: "every_other fs \<noteq> []" using assms by (intro every_other_nonempty) auto
  have y: "every_other (drop (Suc 0) fs) \<noteq> []" using assms by (intro every_other_nonempty) auto
  obtain x0 where x0: "py_min (map JFloat (every_other fs)) = Inr (JFloat x0)"
    using py_min_floats[OF x] by blast
  obtain y0 where y0: "py_min (map JFloat (every_other (drop (Suc 0) fs))) = Inr (JFloat y0)"
    using py_min_floats[OF y] by blast
  obtain x1 where x1: "py_max (map JFloat (every_other fs)) = Inr (JFloat x1)"
    using py_max_floats[OF x] by blast
  obtain y1 where y1: "py_max (map JFloat (every_other (drop (Suc 0) fs))) = Inr (JFloat y1)"
    using py_max_floats[OF y] by blast
  show ?thesis
    by (simp add: coerce_polygon_to_bbox_def Let_def every_other_map drop_map x0 y0 x1 y1
        err_bind_def)
qed

text \<open>On finite floats they are the least and the greatest element.\<close>

lemma Min_insert2:
  "Min (insert (m::rat) (insert x (set xs))) = Min (insert (min x m) (set xs))"
  by (cases "xs = []") (simp_all add: min.commute min.left_commute min.assoc)

lemma Max_insert2:
  "Max (insert (m::rat) (insert x (set xs))) = Max (insert (max x m) (set xs))"
  by (cases "xs = []") (simp_all add: max.commute max.left_commute max.assoc)

lemma py_min_from_Fin:
  "py_min_from (JFloat (Fin m)) (map (\<lambda>v. JFloat (Fin v)) xs) = Inr (JFloat (Fin (Min (set (m # xs)))))"
proof (induction xs arbitrary: m)
  case Nil then show ?case by simp
next
  case (Cons x xs)
  show ?case using Cons[of "if x < m then x else m"] Min_insert2[of m x xs]
    by (simp add: min_def split: if_splits)
qed

lemma py_max_from_Fin:
  "py_max_from (JFloat (Fin m)) (map (\<lambda>v. JFloat (Fin v)) xs) = Inr (JFloat (Fin (Max (set (m # xs)))))"
proof (induction xs arbitrary: m)
  case Nil then show ?case by simp
next
  case (Cons x xs)
  show ?case using Cons[of "if m < x then x else m"] Max_insert2[of m x xs]
    by (simp add: max_def py_gt_def split: if_splits)
qed

lemma coerce_Fin8:
  "coerce_polygon_to_bbox (map (\<lambda>v. JFloat (Fin v)) [x1, y1, x2, y2, x3, y3, x4, y4]) =
     Inr (JFloat (Fin (Min {x1, x2, x3, x4})), JFloat (Fin (Min {y1, y2, y3, y4})),
          JFloat (Fin (Max {x1, x2, x3, x4})), JFloat (Fin (Max {y1, y2, y3, y4})))"
proof -
  have a: "py_min [JFloat (Fin x1), JFloat (Fin x2), JFloat (Fin x3), JFloat (Fin x4)] =
      Inr (JFloat (Fin (Min {x1, x2, x3, x4})))"
    using py_min_from_Fin[of x1 "[x2, x3, x4]"] by (simp add: py_min_def)
  have b: "py_min [JFloat (Fin y1), JFloat (Fin y2), JFloat (Fin y3), JFloat (Fin y4)] =
      Inr (JFloat (Fin (Min {y1, y2, y3, y4})))"
    using py_min_from_Fin[of y1 "[y2, y3, y4]"] by (simp add: py_min_def)
  have c: "py_max [JFloat (Fin x1), JFloat (Fin x2), JFloat (Fin x3), JFloat (Fin x4)] =
      Inr (JFloat (Fin (Max {x1, x2, x3, x4})))"
    using py_max_from_Fin[of x1 "[x2, x3, x4]"] by (simp add: py_max_def)
  have d: "py_max [JFloat (Fin y1), JFloat (Fin y2), JFloat (Fin y3), JFloat (Fin y4)] =
      Inr (JFloat (Fin (Max {y1, y2, y3, y4})))"
    using py_max_from_Fin[of y1 "[y2, y3, y4]"] by (simp add: py_max_def)
  show ?thesis
    by (simp only: coerce_polygon_to_bbox_def Let_def list.map every_other.simps drop_Suc_Cons
        drop_0 One_nat_def a b c d err_bind_def sum.case)
qed


text \<open>The parser on a string written from its tokens.\<close>

lemma parse_source_string:
  assumes K: "\<not> py_isspace K" "K \<noteq> CHR ''(''"
    and toks: "\<forall>t\<in>set (p # cs). CHR '','' \<notin> set t \<and> py_strip t \<noteq> []"
    and len: "8 \<le> length cs"
  shows "parse_cu_source_string L (source_string K (p # cs)) =
     (case py_float_str L (py_strip p) of
        None \<Rightarrow> Inr None
      | Some f \<Rightarrow>
         (case float_to_int f of
            Inl e \<Rightarrow> Inr None
          | Inr n \<Rightarrow>
             (case floats_of L (map py_strip cs) of
                None \<Rightarrow> Inr None
              | Some coords \<Rightarrow>
                 (case coerce_polygon_to_bbox (map JFloat (take 8 coords)) of
                    Inl e \<Rightarrow> Inl e
                  | Inr b \<Rightarrow>
                     Inr (Some \<lparr>kind = Some K, pageNumber = n,
                                polygon = Some (map JFloat (take 8 coords)), bbox = b\<rparr>)))))"
proof -
  let ?s = "source_string K (p # cs)"
  have parts: "source_parts ?s = py_strip p # map py_strip cs"
    using source_string_parts[OF K(2) _ toks] by simp
  have l8: "\<And>coords. floats_of L (map py_strip cs) = Some coords \<Longrightarrow> \<not> length coords < 8"
    using floats_of_length len by fastforce
  show ?thesis
    unfolding parse_cu_source_string_def
    using len l8
    by (simp add: source_string_strip[OF K(1)] source_string_shape[OF len] parts Let_def
        split: option.splits sum.splits)
qed

lemma parse_never_raises: "\<exists>r. parse_cu_source_string L s = Inr r"
proof -
  have "\<And>coords. \<not> length coords < 8 \<Longrightarrow>
      \<exists>b. coerce_polygon_to_bbox (map JFloat (take 8 coords)) = Inr b"
    by (rule coerce_floats) simp
  then show ?thesis
    unfolding parse_cu_source_string_def Let_def
    by (fastforce split: option.splits sum.splits)
qed

text \<open>
  C1. A source string \<open>K(p,x1,y1,x2,y2,x3,y3,x4,y4,...)\<close> whose tag is neither white
  space nor a parenthesis, whose tokens hold no comma and are not blank, whose page token
  converts to the integer \<open>n\<close> and whose coordinate tokens convert to floats, the first
  eight of them to the numbers \<open>x1, y1, ..., x4, y4\<close>, is parsed to the region with kind
  \<open>K\<close>, page number \<open>n\<close>, the eight numbers as polygon and the box of the least and
  greatest \<open>x\<close> and \<open>y\<close>, taken separately.
\<close>

theorem parse_cu_source_string_wellformed:
  assumes K: "\<not> py_isspace K" "K \<noteq> CHR ''(''"
    and toks: "\<forall>t\<in>set (p # cs). CHR '','' \<notin> set t \<and> py_strip t \<noteq> []"
    and page: "py_float_str L (py_strip p) = Some fp" "float_to_int fp = Inr n"
    and coords: "map (\<lambda>t. py_float_str L (py_strip t)) cs = map Some fs"
    and first8: "take 8 fs = map Fin [x1, y1, x2, y2, x3, y3, x4, y4]"
  shows "parse_cu_source_string L (source_string K (p # cs)) =
     Inr (Some \<lparr>kind = Some K, pageNumber = n,
                polygon = Some (map (\<lambda>v. JFloat (Fin v)) [x1, y1, x2, y2, x3, y3, x4, y4]),
                bbox = (JFloat (Fin (Min {x1, x2, x3, x4})), JFloat (Fin (Min {y1, y2, y3, y4})),
                        JFloat (Fin (Max {x1, x2, x3, x4})), JFloat (Fin (Max {y1, y2, y3, y4})))\<rparr>)"
proof -
  have "length fs = length cs"
    using coords by (metis length_map)
  moreover have "length (take 8 fs) = 8"
    using first8 by simp
  ultimately have len: "8 \<le> length cs"
    by simp
  have fl: "floats_of L (map py_strip cs) = Some fs"
    using coords by (simp add: floats_of_map comp_def)
  have p8: "map JFloat (take 8 fs) = map (\<lambda>v. JFloat (Fin v)) [x1, y1, x2, y2, x3, y3, x4, y4]"
    using first8 by simp
  show ?thesis
    unfolding parse_source_string[OF K toks len, of L]
    by (simp only: page fl p8 coerce_Fin8 option.case sum.case)
qed

theorem parse_cu_source_string_wellformed_witness:
  "parse_cu_source_string plain_builtins ''D(3,10,20,30,20,30,40,10,40)'' =
     Inr (Some \<lparr>kind = Some CHR ''D'', pageNumber = 3,
                polygon = Some (map (\<lambda>v. JFloat (Fin v)) [10, 20, 30, 20, 30, 40, 10, 40]),
                bbox = (JFloat (Fin 10), JFloat (Fin 20), JFloat (Fin 30), JFloat (Fin 40))\<rparr>)"
proof -
  have K: "\<not> py_isspace CHR ''D''" "CHR ''D'' \<noteq> CHR ''(''"
    by (simp_all add: py_isspace_def)
  have toks: "\<forall>t\<in>set (''3'' # [''10'', ''20'', ''30'', ''20'', ''30'', ''40'', ''10'', ''40'']).
      CHR '','' \<notin> set t \<and> py_strip t \<noteq> []"
    by (simp add: py_strip_def py_isspace_def)
  have page: "py_float_str plain_builtins (py_strip ''3'') = Some (Fin 3)"
    "float_to_int (Fin 3) = Inr 3"
    by (simp_all add: plain_builtins_def decimal_nat_def py_strip_def py_isspace_def rat_trunc_def)
  have coords: "map (\<lambda>t. py_float_str plain_builtins (py_strip t))
      [''10'', ''20'', ''30'', ''20'', ''30'', ''40'', ''10'', ''40''] =
      map Some (map Fin [10, 20, 30, 20, 30, 40, 10, 40])"
    by (simp add: plain_builtins_def decimal_nat_def py_strip_def py_isspace_def)
  have first8: "take 8 (map Fin [10, 20, 30, 20, 30, 40, 10, 40]) =
      map Fin [10, 20, 30, 20, 30, 40, 10, 40::rat]"
    by simp
  show ?thesis
    using parse_cu_source_string_wellformed[OF K toks page coords first8]
    by (simp add: source_string_def)
qed

lemma length_py_split: "length (py_split sep s) \<le> Suc (length s)"
  by (induction s) (auto split: list.splits)

lemma length_source_parts: "t \<noteq> [] \<Longrightarrow> length (source_parts t) \<le> length t"
proof -
  assume t: "t \<noteq> []"
  have "length (source_parts t) \<le> length (py_split CHR '','' (source_body t))"
    unfolding source_parts_def
    using length_filter_le[of _ "map py_strip (py_split CHR '','' (source_body t))"] by simp
  also have "\<dots> \<le> Suc (length (source_body t))"
    by (rule length_py_split)
  also have "\<dots> \<le> length t"
    using t by (cases t) (simp_all add: source_body_def slice_to_last_def)
  finally show ?thesis .
qed

lemma parts_le_pieces:
  "length (source_parts t) \<le> length (py_split CHR '','' (source_body t))"
  unfolding source_parts_def
  using length_filter_le[of _ "map py_strip (py_split CHR '','' (source_body t))"] by simp

lemma parse_malformed: "malformed L s \<Longrightarrow> parse_cu_source_string L s = Inr None"
proof -
  assume m: "malformed L s"
  let ?t = "py_strip s"
  show ?thesis
  proof (cases "source_parts ?t")
    case Nil
    then show ?thesis by (simp add: parse_cu_source_string_def Let_def)
  next
    case (Cons tok rest)
    then show ?thesis
      using m
      by (auto simp: parse_cu_source_string_def Let_def malformed_def numeric_page_def
          split: option.splits sum.splits)
  qed
qed

lemma parse_wellformed_some:
  assumes "\<not> malformed L s"
  shows "\<exists>r. parse_cu_source_string L s = Inr (Some r)"
proof -
  let ?t = "py_strip s"
  have paren: "CHR ''('' \<in> set ?t" "py_endswith ?t CHR '')''"
    and nine: "\<not> length (source_parts ?t) < 9"
    using assms by (simp_all add: malformed_def Let_def)
  obtain tok rest where parts: "source_parts ?t = tok # rest"
    using nine by (cases "source_parts ?t") simp_all
  have num: "numeric_page L tok" and fl: "floats_of L rest \<noteq> None"
    using assms parts by (simp_all add: malformed_def Let_def)
  obtain f n where f: "py_float_str L tok = Some f" "float_to_int f = Inr n"
    using num by (auto simp: numeric_page_def split: option.splits sum.splits)
  obtain coords where c: "floats_of L rest = Some coords"
    using fl by blast
  have lc: "\<not> length coords < 8"
    using floats_of_length[OF c] nine parts by simp
  have t: "?t \<noteq> []"
    using paren by auto
  then have s: "s \<noteq> []"
    by (auto simp: py_strip_def)
  have "9 \<le> length ?t"
    using length_source_parts[OF t] nine by simp
  then have l4: "\<not> length ?t < 4"
    by simp
  obtain b where b: "coerce_polygon_to_bbox (map JFloat (take 8 coords)) = Inr b"
    using coerce_floats[of "take 8 coords"] lc by auto
  show ?thesis
    using s l4 paren nine lc
    by (simp add: parse_cu_source_string_def Let_def parts f c b)
qed

text \<open>
  C3. The parser raises on no string, and the strings on which it returns no region are
  exactly the malformed ones: those without parenthesized body, with fewer than 9
  tokens in the body, with a page token that is not numeric, or with a later token that
  is not. A body of fewer than 9 comma-separated pieces has fewer than 9 tokens.
\<close>

theorem parse_cu_source_string_malformed:
  "(\<exists>r. parse_cu_source_string L s = Inr r) \<and>
   (malformed L s \<longleftrightarrow> parse_cu_source_string L s = Inr None) \<and>
   (length (py_split CHR '','' (source_body (py_strip s))) < 9 \<longrightarrow> malformed L s)"
proof (intro conjI)
  show "\<exists>r. parse_cu_source_string L s = Inr r"
    by (rule parse_never_raises)
  have "\<not> malformed L s \<Longrightarrow> parse_cu_source_string L s \<noteq> Inr None"
    using parse_wellformed_some[of L s] by auto
  then show "malformed L s \<longleftrightarrow> parse_cu_source_string L s = Inr None"
    using parse_malformed[of L s] by blast
  show "length (py_split CHR '','' (source_body (py_strip s))) < 9 \<longrightarrow> malformed L s"
    using parts_le_pieces[of "py_strip s"] by (auto simp: malformed_def Let_def)
qed

theorem parse_cu_source_string_malformed_witness:
  "(malformed plain_builtins ''D1,0,0,1,0,1,1,0,1'' \<and>
    parse_cu_source_string plain_builtins ''D1,0,0,1,0,1,1,0,1'' = Inr None) \<and>
   (malformed plain_builtins ''D(1,0,0,1)'' \<and>
    parse_cu_source_string plain_builtins ''D(1,0,0,1)'' = Inr None) \<and>
   (malformed plain_builtins ''D(1,2,3,,,,,,)'' \<and>
    parse_cu_source_string plain_builtins ''D(1,2,3,,,,,,)'' = Inr None) \<and>
   (malformed plain_builtins ''D(x,0,0,1,0,1,1,0,1)'' \<and>
    parse_cu_source_string plain_builtins ''D(x,0,0,1,0,1,1,0,1)'' = Inr None) \<and>
   (malformed plain_builtins ''D(1,0,0,1,0,1,1,0,y)'' \<and>
    parse_cu_source_string plain_builtins ''D(1,0,0,1,0,1,1,0,y)'' = Inr None) \<and>
   (\<not> malformed plain_builtins ''D(,1,2,3,4,5,6,7,8,9)'' \<and>
    parse_cu_source_string plain_builtins ''D(,1,2,3,4,5,6,7,8,9)'' \<noteq> Inr None)"
proof -
  have a: "malformed plain_builtins ''D1,0,0,1,0,1,1,0,1''" by code_simp
  have b: "malformed plain_builtins ''D(1,0,0,1)''" by code_simp
  have c: "malformed plain_builtins ''D(1,2,3,,,,,,)''" by code_simp
  have d: "malformed plain_builtins ''D(x,0,0,1,0,1,1,0,1)''" by code_simp
  have e: "malformed plain_builtins ''D(1,0,0,1,0,1,1,0,y)''" by code_simp
  have f: "\<not> malformed plain_builtins ''D(,1,2,3,4,5,6,7,8,9)''" by code_simp
  show ?thesis
    using a b c d e f
      parse_cu_source_string_malformed[of plain_builtins "''D1,0,0,1,0,1,1,0,1''"]
      parse_cu_source_string_malformed[of plain_builtins "''D(1,0,0,1)''"]
      parse_cu_source_string_malformed[of plain_builtins "''D(1,2,3,,,,,,)''"]
      parse_cu_source_string_malformed[of plain_builtins "''D(x,0,0,1,0,1,1,0,1)''"]
      parse_cu_source_string_malformed[of plain_builtins "''D(1,0,0,1,0,1,1,0,y)''"]
      parse_cu_source_string_malformed[of plain_builtins "''D(,1,2,3,4,5,6,7,8,9)''"]
    by blast
qed

text \<open>
  C4, as the claim states it, fails: a tenth token that is not numeric turns a string
  that parses into one that does not.
\<close>

theorem parse_cu_source_string_extra_token_counterexample:
  "parse_cu_source_string plain_builtins ''D(1,0,0,1,0,1,1,0,1)'' =
     Inr (Some \<lparr>kind = Some CHR ''D'', pageNumber = 1,
                polygon = Some (map (\<lambda>v. JFloat (Fin v)) [0, 0, 1, 0, 1, 1, 0, 1]),
                bbox = (JFloat (Fin 0), JFloat (Fin 0), JFloat (Fin 1), JFloat (Fin 1))\<rparr>) \<and>
   parse_cu_source_string plain_builtins ''D(1,0,0,1,0,1,1,0,1,x)'' = Inr None"
  by code_simp

text \<open>
  C4, amended. For a page token, eight coordinate tokens and any further tokens, none
  blank or holding a comma, the page and the eight coordinates numeric: when every
  further token is numeric the result is the region of the first nine tokens, built
  from the page number and the eight coordinate values; when a further token is not
  numeric the result is no region.
\<close>

theorem parse_cu_source_string_extra_tokens:
  assumes K: "\<not> py_isspace K" "K \<noteq> CHR ''(''"
    and toks: "\<forall>t\<in>set (p # cs @ extra). CHR '','' \<notin> set t \<and> py_strip t \<noteq> []"
    and len: "length cs = 8"
    and page: "py_float_str L (py_strip p) = Some fp" "float_to_int fp = Inr n"
    and coords: "map (\<lambda>t. py_float_str L (py_strip t)) cs = map Some fs"
  shows "((\<forall>t\<in>set extra. py_float_str L (py_strip t) \<noteq> None) \<longrightarrow>
            parse_cu_source_string L (source_string K (p # cs @ extra)) =
              parse_cu_source_string L (source_string K (p # cs)) \<and>
            (\<exists>b. parse_cu_source_string L (source_string K (p # cs)) =
                    Inr (Some \<lparr>kind = Some K, pageNumber = n,
                               polygon = Some (map JFloat fs), bbox = b\<rparr>))) \<and>
         ((\<exists>t\<in>set extra. py_float_str L (py_strip t) = None) \<longrightarrow>
            parse_cu_source_string L (source_string K (p # cs @ extra)) = Inr None)"
proof -
  have toks9: "\<forall>t\<in>set (p # cs). CHR '','' \<notin> set t \<and> py_strip t \<noteq> []"
    using toks by simp
  have len1: "8 \<le> length cs" and len2: "8 \<le> length (cs @ extra)"
    using len by simp_all
  have fl: "floats_of L (map py_strip cs) = Some fs"
    using coords by (simp add: floats_of_map comp_def)
  have lfs: "length fs = 8"
    using floats_of_length[OF fl] len by simp
  obtain b where b: "coerce_polygon_to_bbox (map JFloat fs) = Inr b"
    using coerce_floats[of fs] lfs by auto
  have short: "parse_cu_source_string L (source_string K (p # cs)) =
      Inr (Some \<lparr>kind = Some K, pageNumber = n, polygon = Some (map JFloat fs), bbox = b\<rparr>)"
    unfolding parse_source_string[OF K toks9 len1, of L]
    by (simp add: page fl lfs b)
  have long: "parse_cu_source_string L (source_string K (p # cs @ extra)) =
      (case floats_of L (map py_strip extra) of
         None \<Rightarrow> Inr None
       | Some gs \<Rightarrow>
           Inr (Some \<lparr>kind = Some K, pageNumber = n, polygon = Some (map JFloat fs), bbox = b\<rparr>))"
    unfolding parse_source_string[OF K toks len2, of L]
    by (simp add: page fl lfs b floats_of_append split: option.splits)
  have none: "(\<exists>t\<in>set extra. py_float_str L (py_strip t) = None) \<longleftrightarrow>
      floats_of L (map py_strip extra) = None"
    by (simp add: floats_of_None)
  show ?thesis
  proof (cases "floats_of L (map py_strip extra)")
    case None
    then show ?thesis using none long by auto
  next
    case (Some gs)
    have "\<not> (\<exists>t\<in>set extra. py_float_str L (py_strip t) = None)"
      using none Some by simp
    moreover have "parse_cu_source_string L (source_string K (p # cs @ extra)) =
        parse_cu_source_string L (source_string K (p # cs))"
      using long short Some by simp
    ultimately show ?thesis using short by blast
  qed
qed

theorem parse_cu_source_string_extra_tokens_witness:
  "parse_cu_source_string plain_builtins ''D(1,0,0,1,0,1,1,0,1,7,8)'' =
     parse_cu_source_string plain_builtins ''D(1,0,0,1,0,1,1,0,1)'' \<and>
   parse_cu_source_string plain_builtins ''D(1,0,0,1,0,1,1,0,1,7,x)'' = Inr None"
proof -
  have K: "\<not> py_isspace CHR ''D''" "CHR ''D'' \<noteq> CHR ''(''"
    by (simp_all add: py_isspace_def)
  have toks: "\<forall>t\<in>set (''1'' # [''0'', ''0'', ''1'', ''0'', ''1'', ''1'', ''0'', ''1''] @ [''7'', e]).
      CHR '','' \<notin> set t \<and> py_strip t \<noteq> []" if "e = ''8'' \<or> e = ''x''" for e
    using that by (auto simp: py_strip_def py_isspace_def)
  have page: "py_float_str plain_builtins (py_strip ''1'') = Some (Fin 1)"
    "float_to_int (Fin 1) = Inr 1"
    by (simp_all add: plain_builtins_def decimal_nat_def py_strip_def py_isspace_def rat_trunc_def)
  have coords: "map (\<lambda>t. py_float_str plain_builtins (py_strip t))
      [''0'', ''0'', ''1'', ''0'', ''1'', ''1'', ''0'', ''1''] =
      map Some (map Fin [0, 0, 1, 0, 1, 1, 0, 1])"
    by (simp add: plain_builtins_def decimal_nat_def py_strip_def py_isspace_def)
  have num: "py_float_str plain_builtins (py_strip ''7'') = Some (Fin 7)"
    "py_float_str plain_builtins (py_strip ''8'') = Some (Fin 8)"
    "py_float_str plain_builtins (py_strip ''x'') = None"
    by (simp_all add: plain_builtins_def decimal_nat_def py_strip_def py_isspace_def)
  show ?thesis
    using parse_cu_source_string_extra_tokens[OF K toks _ page coords, of "''8''"]
      parse_cu_source_string_extra_tokens[OF K toks _ page coords, of "''x''"]
    by (simp add: source_string_def num)
qed

section \<open>Properties of the region extractor\<close>

text \<open>
  C2. A bounding region with a polygon and no page number anywhere makes the region
  extractor raise TypeError (\<open>int(None)\<close>), where the claim has it return no region;
  the same polygon at the top level of the source is skipped.
\<close>

theorem normalize_regions_no_page_raises:
  "normalize_regions_from_source L
     [(''boundingRegions'',
       JList [JDict [(''polygon'',
         JList [JInt 0, JInt 0, JInt 1, JInt 0, JInt 1, JInt 1, JInt 0, JInt 1])]])] =
     Inl TypeError \<and>
   normalize_regions_from_source L
     [(''polygon'', JList [JInt 0, JInt 0, JInt 1, JInt 0, JInt 1, JInt 1, JInt 0, JInt 1])] =
     Inr []"
  by (simp add: normalize_regions_from_source_def bounding_region_def dict_get_def py_or_def
      coerce_polygon_to_bbox_def py_min_def py_max_def py_gt_def err_bind_def)

section \<open>Properties of the field value resolver\<close>

text \<open>
  C6. The value picked from a field object is the value under the first of the seven
  value keys, in the order of their priority, that the object has, and null when it has
  none; with both \<open>valueString\<close> and \<open>value\<close> present it is the one under
  \<open>valueString\<close>.
\<close>

theorem pick_value_priority:
  "pick_value_from_field_obj d =
     (case find (dict_has d) value_keys of None \<Rightarrow> JNull | Some k \<Rightarrow> dict_get d k) \<and>
   (dict_has d ''valueString'' \<longrightarrow> pick_value_from_field_obj d = dict_get d ''valueString'') \<and>
   ((\<forall>k\<in>set value_keys. \<not> dict_has d k) \<longrightarrow> pick_value_from_field_obj d = JNull)"
  by (simp add: pick_value_from_field_obj_def value_keys_def)

theorem pick_value_priority_witness:
  "pick_value_from_field_obj [(''value'', JStr ''baz''), (''valueString'', JStr ''bar'')] =
     JStr ''bar'' \<and>
   pick_value_from_field_obj [(''confidence'', JInt 1)] = JNull"
proof -
  have a: "dict_has [(''value'', JStr ''baz''), (''valueString'', JStr ''bar'')] ''valueString''"
    by (simp add: dict_has_def)
  have b: "\<forall>k\<in>set value_keys. \<not> dict_has [(''confidence'', JInt 1)] k"
    by (simp add: dict_has_def value_keys_def)
  have "pick_value_from_field_obj [(''value'', JStr ''baz''), (''valueString'', JStr ''bar'')] =
      dict_get [(''value'', JStr ''baz''), (''valueString'', JStr ''bar'')] ''valueString''"
    using a pick_value_priority[of "[(''value'', JStr ''baz''), (''valueString'', JStr ''bar'')]"]
    by blast
  moreover have "pick_value_from_field_obj [(''confidence'', JInt 1)] = JNull"
    using b pick_value_priority[of "[(''confidence'', JInt 1)]"] by blast
  ultimately show ?thesis
    by (simp add: dict_get_def)
qed

section \<open>Properties of the field extraction\<close>

text \<open>
  C7. The result \<open>{"result": {"contents": [{"fields": {"Foo": {"valueString":
  "bar"}}}]}}\<close> yields exactly the field \<open>Foo\<close> with value \<open>"bar"\<close> and no region.
\<close>

theorem extract_fields_example:
  "extract_fields_with_locations L
     (JDict [(''result'', JDict [(''contents'',
        JList [JDict [(''fields'', JDict [(''Foo'', JDict [(''valueString'', JStr ''bar'')])])]])])]) =
     Inr [\<lparr>field_name = ''Foo'', field_value = JStr ''bar'', field_regions = []\<rparr>]"
  by (simp add: extract_fields_with_locations_def first_content_def candidate_fields_def
      is_document_like_def dict_get_def dict_has_def py_or_def err_bind_def
      pick_value_from_field_obj_def sources_to_regions_def)

section \<open>Properties of the source-to-region resolver\<close>















section \<open>Properties of the evidence gatherer\<close>

lemma own_sources_scalar: "\<not> is_container v \<Longrightarrow> concat (map own_sources (nodes v)) = []"
  by (cases v) simp_all

lemma gather_nodes:
  "gather_sources_recursive n = concat (map own_sources (nodes n))"
  "gather_values e = concat (map own_sources (nodes_values e))"
  "gather_items xs = concat (map own_sources (nodes_items xs))"
  by (induction n and e and xs rule: gather_sources_recursive_gather_values_gather_items.induct)
    (simp_all add: own_sources_scalar)

text \<open>
  C8, as the claim states it, fails: two entries of one mapping are collected in the
  order \<open>source\<close>, \<open>sources\<close>, \<open>evidence\<close> of the keys, not in the order of their
  insertion.
\<close>

theorem gather_sources_entry_order_counterexample:
  "gather_sources_recursive (JDict [(''evidence'', JStr ''a''), (''source'', JStr ''b'')]) =
     [JStr ''b'', JStr ''a''] \<and>
   sources_in_entry_order (JDict [(''evidence'', JStr ''a''), (''source'', JStr ''b'')]) =
     [JStr ''a'', JStr ''b'']"
  by (simp add: dict_has_def dict_get_def)

text \<open>
  C8, amended. The gatherer visits every node of the tree in natural traversal order
  and collects, at each mapping, the values under \<open>source\<close>, \<open>sources\<close> and
  \<open>evidence\<close> in this order of the keys; so every value under one of these keys, at
  any depth, is collected.
\<close>

theorem gather_sources_all_nodes:
  "gather_sources_recursive n = concat (map own_sources (nodes n)) \<and>
   (\<forall>e k. JDict e \<in> set (nodes n) \<and> k \<in> {''source'', ''sources'', ''evidence''} \<and>
          dict_has e k \<longrightarrow> dict_get e k \<in> set (gather_sources_recursive n))"
proof -
  have "dict_get e k \<in> set (concat (map own_sources (nodes n)))"
    if "JDict e \<in> set (nodes n)" "k \<in> {''source'', ''sources'', ''evidence''}" "dict_has e k"
    for e k
  proof -
    have "dict_get e k \<in> set (own_sources (JDict e))"
      using that(2,3) by auto
    then have "\<exists>d\<in>set (nodes n). dict_get e k \<in> set (own_sources d)"
      using that(1) by blast
    then show ?thesis by (simp only: set_concat set_map) blast
  qed
  then show ?thesis by (simp add: gather_nodes(1))
qed

theorem gather_sources_all_nodes_witness:
  "gather_sources_recursive
     (JDict [(''x'', JList [JDict [(''evidence'', JStr ''deep'')]]), (''source'', JStr ''top'')]) =
     [JStr ''top'', JStr ''deep''] \<and>
   JStr ''deep'' \<in> set (gather_sources_recursive
     (JDict [(''x'', JList [JDict [(''evidence'', JStr ''deep'')]]), (''source'', JStr ''top'')]))"
proof -
  let ?n = "JDict [(''x'', JList [JDict [(''evidence'', JStr ''deep'')]]), (''source'', JStr ''top'')]"
  have a: "JDict [(''evidence'', JStr ''deep'')] \<in> set (nodes ?n)"
    by simp
  have b: "dict_has [(''evidence'', JStr ''deep'')] ''evidence''"
    by (simp add: dict_has_def)
  have c: "concat (map own_sources (nodes ?n)) = [JStr ''top'', JStr ''deep'']"
    by (simp add: dict_has_def dict_get_def)
  have "dict_get [(''evidence'', JStr ''deep'')] ''evidence'' \<in> set (gather_sources_recursive ?n)"
    using gather_sources_all_nodes[of ?n] a b by blast
  then show ?thesis
    using gather_sources_all_nodes[of ?n] c by (simp add: dict_get_def)
qed

section \<open>Properties of the classifier output interpreter\<close>

lemma first_some_append:
  "first_some (xs @ ys) = (case first_some xs of Some r \<Rightarrow> Some r | None \<Rightarrow> first_some ys)"
  by (induction xs rule: first_some.induct) simp_all

lemma find_first_category_nodes:
  "find_first_category L n = first_some (map (own_label L) (nodes n))"
  "find_first_category_values L e = first_some (map (own_label L) (nodes_values e))"
  "find_first_category_items L xs = first_some (map (own_label L) (nodes_items xs))"
proof (induction L n and L e and L xs
    rule: find_first_category_find_first_category_values_find_first_category_items.induct)
  case (1 L e)
  show ?case
    by (cases "dict_get e ''category''"; cases "dict_get e ''label''") (simp_all add: 1)
qed (simp_all add: first_some_append split: option.splits)

lemma own_label_labelled: "own_label L n = None \<longleftrightarrow> \<not> labelled n"
  by (cases n) (auto simp: dict_has_def dict_get_def split: json.splits option.splits)

lemma first_some_none: "(\<forall>x\<in>set xs. f x = None) \<Longrightarrow> first_some (map f xs) = None"
  by (induction xs) simp_all


text \<open>
  C9. When the first node in natural traversal order that carries a string under
  \<open>category\<close> or \<open>label\<close> is a mapping with the string \<open>c\<close> under \<open>category\<close> and a
  float other than zero under \<open>confidence\<close> (as \<open>"Invoices"\<close> and \<open>0.92\<close>), the
  interpreter returns that string and that float; when no node carries such a string
  it returns \<open>(None, None)\<close>.
\<close>

theorem parse_classifier_output_first_label:
  "((nodes result = pre @ JDict e # post \<and> (\<forall>n\<in>set pre. \<not> labelled n) \<and>
     dict_get e ''category'' = JStr c \<and> dict_get e ''confidence'' = JFloat v \<and> v \<noteq> Fin 0) \<longrightarrow>
    parse_classifier_output L result = (Some c, Some v)) \<and>
   ((\<forall>n\<in>set (nodes result). \<not> labelled n) \<longrightarrow>
    parse_classifier_output L result = (None, None))"
proof (intro conjI impI)
  assume a: "nodes result = pre @ JDict e # post \<and> (\<forall>n\<in>set pre. \<not> labelled n) \<and>
     dict_get e ''category'' = JStr c \<and> dict_get e ''confidence'' = JFloat v \<and> v \<noteq> Fin 0"
  have pre: "first_some (map (own_label L) pre) = None"
    using a by (intro first_some_none) (simp add: own_label_labelled)
  have conf: "confidence_of L e = Some v"
    using a by (simp add: confidence_of_def py_or_def)
  have "find_first_category L result = Some (c, Some v)"
    using a pre conf by (simp add: find_first_category_nodes(1) first_some_append)
  then show "parse_classifier_output L result = (Some c, Some v)"
    by (simp add: parse_classifier_output_def)
next
  assume "\<forall>n\<in>set (nodes result). \<not> labelled n"
  then have "first_some (map (own_label L) (nodes result)) = None"
    by (intro first_some_none) (simp add: own_label_labelled)
  then show "parse_classifier_output L result = (None, None)"
    by (simp add: parse_classifier_output_def find_first_category_nodes(1))
qed

theorem parse_classifier_output_first_label_witness:
  "parse_classifier_output plain_builtins
     (JDict [(''a'', JDict [(''category'', JStr ''Invoices''),
                            (''confidence'', JFloat (Fin (92 / 100)))])]) =
     (Some ''Invoices'', Some (Fin (92 / 100))) \<and>
   parse_classifier_output plain_builtins (JDict [(''a'', JDict [(''b'', JList [JInt 1])])]) = (None, None)"
proof -
  let ?e = "[(''category'', JStr ''Invoices''), (''confidence'', JFloat (Fin (92 / 100)))]"
  let ?r = "JDict [(''a'', JDict ?e)]"
  have a: "nodes ?r = [?r] @ JDict ?e # [JStr ''Invoices'', JFloat (Fin (92 / 100))] \<and>
      (\<forall>n\<in>set [?r]. \<not> labelled n) \<and> dict_get ?e ''category'' = JStr ''Invoices'' \<and>
      dict_get ?e ''confidence'' = JFloat (Fin (92 / 100)) \<and> Fin (92 / 100) \<noteq> Fin 0"
    by (simp add: dict_has_def dict_get_def)
  have b: "\<forall>n\<in>set (nodes (JDict [(''a'', JDict [(''b'', JList [JInt 1])])])). \<not> labelled n"
    by (simp add: dict_has_def dict_get_def)
  have "parse_classifier_output plain_builtins ?r = (Some ''Invoices'', Some (Fin (92 / 100)))"
    using a parse_classifier_output_first_label[of ?r "[?r]" ?e
        "[JStr ''Invoices'', JFloat (Fin (92 / 100))]" "''Invoices''" "Fin (92 / 100)" plain_builtins]
    by blast
  moreover have
    "parse_classifier_output plain_builtins (JDict [(''a'', JDict [(''b'', JList [JInt 1])])]) = (None, None)"
    using b parse_classifier_output_first_label[of "JDict [(''a'', JDict [(''b'', JList [JInt 1])])]"
        _ _ _ _ _ plain_builtins]
    by blast
  ultimately show ?thesis by simp
qed

section \<open>Properties of the projection\<close>


lemma num_is_cases: "num_is j v \<Longrightarrow> j = JInt v \<or> j = JFloat (Fin (of_int v))"
  by (simp add: num_is_def)






end
